theory Spec2Isabelle
  imports Complex_Main
begin

section \<open>Data model\<close>

text \<open>
  The notebook's only function is \<open>best_hummer_q(traj, native)\<close>. It works on
  \<open>mdtraj\<close> trajectories: a topology, an array \<open>xyz\<close> of shape (frames, atoms, 3)
  and, when the file gave one, a unit cell for every frame.

  The topology is the list of its atoms in the order \<open>topology.atoms\<close> iterates them.
  An atom has its \<open>index\<close> (the row of its coordinates in a frame, and the argument of
  \<open>topology.atom(i)\<close>), its element symbol, the index of its residue and whether that
  residue is a protein residue. Unit cells are orthorhombic boxes, given by their
  three edge lengths; the toolkit also reads triclinic cells, which are left out.

  Coordinates, distances and scores are float32 in the source. The functions of the
  model compute with exact real numbers. Three effects of float32 are written out
  where a claim turns on them: the mean of an empty row is NaN, the cutoff the
  distances are compared with is the float32 nearest to 0.45, and the float32
  evaluation of line 61, with its rounding and the overflow of \<open>np.exp\<close>, is modelled
  beside the exact one. The function's \<open>print\<close> of the number of native contacts is
  left out.
\<close>

type_synonym coord = "real \<times> real \<times> real"

type_synonym cell = "real \<times> real \<times> real"

record atom =
  index :: nat
  element :: string
  is_protein :: bool
  residue_index :: int

record trajectory =
  topology :: "atom list"
  xyz :: "coord list list"
  unitcell_lengths :: "cell list option"

definition n_atoms :: "trajectory \<Rightarrow> nat" where
  "n_atoms t = length (topology t)"

text \<open>A frame with its unit cell, if the trajectory has unit cells.\<close>

type_synonym frame = "cell option \<times> coord list"

definition frames :: "trajectory \<Rightarrow> frame list" where
  "frames t =
     (case unitcell_lengths t of
        None \<Rightarrow> map (Pair None) (xyz t)
      | Some cs \<Rightarrow> zip (map Some cs) (xyz t))"

text \<open>
  What the toolkit guarantees of a trajectory: every frame has one coordinate triple
  per atom, the atoms' indices are distinct and below the number of atoms, and, with
  unit cells, there is one per frame, with positive edge lengths.
\<close>

definition positive_cell :: "cell \<Rightarrow> bool" where
  "positive_cell c = (case c of (lx, ly, lz) \<Rightarrow> 0 < lx \<and> 0 < ly \<and> 0 < lz)"

definition wf_trajectory :: "trajectory \<Rightarrow> bool" where
  "wf_trajectory t =
     (list_all (\<lambda>x. length x = n_atoms t) (xyz t)
      \<and> list_all (\<lambda>a. index a < n_atoms t) (topology t)
      \<and> distinct (map index (topology t))
      \<and> (case unitcell_lengths t of
            None \<Rightarrow> True
          | Some cs \<Rightarrow> length cs = length (xyz t) \<and> list_all positive_cell cs))"


datatype error = ValueError | IndexError

text \<open>A float of the result: a number, or NaN (numpy's mean of an empty slice).\<close>

datatype npfloat = Num real | NaN

text \<open>
  An integer array of atom pairs. \<open>np.array\<close> of a non-empty list of 2-tuples has
  shape (n, 2); of the empty list it has shape (0,), one dimension only.
\<close>

record pair_array =
  ndim :: nat
  rows :: "(nat \<times> nat) list"

definition np_array :: "(nat \<times> nat) list \<Rightarrow> pair_array" where
  "np_array ps = (if ps = [] then \<lparr>ndim = 1, rows = []\<rparr> else \<lparr>ndim = 2, rows = ps\<rparr>)"

section \<open>Constants of \<open>best_hummer_q\<close>\<close>

definition BETA_CONST :: real where
  "BETA_CONST = 50"

definition LAMBDA_CONST :: real where
  "LAMBDA_CONST = 18 / 10"

text \<open>
  \<open>NATIVE_CUTOFF = 0.45\<close> is compared with a float32 array, so the comparison is made
  in float32, with the float32 nearest to 0.45: 15099494 / 2^25, that is
  0.449999988079071044921875.
\<close>

definition NATIVE_CUTOFF :: real where
  "NATIVE_CUTOFF = 15099494 / 2 ^ 25"

section \<open>Library operations the function calls\<close>

text \<open>\<open>topology.select_atom_indices('heavy')\<close>: the indices of the atoms that are not
  hydrogen and belong to a protein residue, in the order the topology iterates its
  atoms.\<close>

definition select_atom_indices_heavy :: "atom list \<Rightarrow> nat list" where
  "select_atom_indices_heavy atoms =
     map index (filter (\<lambda>a. element a \<noteq> ''H'' \<and> is_protein a) atoms)"

text \<open>\<open>topology.atom(i)\<close>: the atom of index \<open>i\<close>.\<close>

definition atom_at :: "atom list \<Rightarrow> nat \<Rightarrow> atom option" where
  "atom_at atoms i = find (\<lambda>a. index a = i) atoms"

text \<open>\<open>itertools.combinations(xs, 2)\<close>: the pairs of positions p < q, in lexicographic
  order of (p, q).\<close>

fun combinations2 :: "'a list \<Rightarrow> ('a \<times> 'a) list" where
  "combinations2 [] = []"
| "combinations2 (x # xs) = map (Pair x) xs @ combinations2 xs"

definition distance :: "coord \<Rightarrow> coord \<Rightarrow> real" where
  "distance a b =
     (case a of (x1, y1, z1) \<Rightarrow> case b of (x2, y2, z2) \<Rightarrow>
        sqrt ((x1 - x2)\<^sup>2 + (y1 - y2)\<^sup>2 + (z1 - z2)\<^sup>2))"

text \<open>
  The minimum image convention in an orthorhombic box: every component of the
  displacement is reduced by the nearest whole number of box lengths. (At a tie the
  two nearest images are equally far, so the way \<open>round\<close> breaks ties does not change
  the distance.)
\<close>

definition wrap :: "real \<Rightarrow> real \<Rightarrow> real" where
  "wrap l d = d - l * of_int (round (d / l))"

definition mic_distance :: "cell \<Rightarrow> coord \<Rightarrow> coord \<Rightarrow> real" where
  "mic_distance c a b =
     (case c of (lx, ly, lz) \<Rightarrow> case a of (x1, y1, z1) \<Rightarrow> case b of (x2, y2, z2) \<Rightarrow>
        sqrt ((wrap lx (x2 - x1))\<^sup>2 + (wrap ly (y2 - y1))\<^sup>2 + (wrap lz (z2 - z1))\<^sup>2))"

text \<open>
  The distance \<open>md.compute_distances\<close> measures between the atoms of a pair in one
  frame. The function calls it with the default \<open>periodic=True\<close>: Euclidean when the
  trajectory has no unit cell, minimum image when it has.
\<close>

definition frame_distance :: "frame \<Rightarrow> nat \<times> nat \<Rightarrow> real" where
  "frame_distance fr p =
     (case fst fr of
        None \<Rightarrow> distance (snd fr ! fst p) (snd fr ! snd p)
      | Some c \<Rightarrow> mic_distance c (snd fr ! fst p) (snd fr ! snd p))"

text \<open>
  \<open>md.compute_distances(traj, atom_pairs)\<close>: the toolkit validates its arguments first.
  The pair array must have two dimensions and every index must be an atom of the
  trajectory, else ValueError; both checks come before any distance. The result has
  one row per frame and one column per pair (no column at all for an empty pair array
  of shape (0, 2)).
\<close>

definition pairs_in_range :: "nat \<Rightarrow> (nat \<times> nat) list \<Rightarrow> bool" where
  "pairs_in_range n ps = list_all (\<lambda>p. fst p < n \<and> snd p < n) ps"

definition frame_distances :: "(nat \<times> nat) list \<Rightarrow> frame \<Rightarrow> real list" where
  "frame_distances ps fr = map (frame_distance fr) ps"

definition compute_distances :: "trajectory \<Rightarrow> pair_array \<Rightarrow> error + real list list" where
  "compute_distances t pa =
     (if ndim pa \<noteq> 2 then Inl ValueError
      else if \<not> pairs_in_range (n_atoms t) (rows pa) then Inl ValueError
      else Inr (map (frame_distances (rows pa)) (frames t)))"

text \<open>\<open>traj[0]\<close>: the one-frame trajectory of the first frame, with its unit cell;
  IndexError when there is no frame.\<close>

definition first_frame :: "trajectory \<Rightarrow> error + trajectory" where
  "first_frame t =
     (case xyz t of
        [] \<Rightarrow> Inl IndexError
      | x # _ \<Rightarrow>
          (case unitcell_lengths t of
             None \<Rightarrow> Inr (t\<lparr>xyz := [x]\<rparr>)
           | Some [] \<Rightarrow> Inl IndexError
           | Some (c # _) \<Rightarrow> Inr (t\<lparr>xyz := [x], unitcell_lengths := Some [c]\<rparr>)))"

text \<open>\<open>a[0]\<close> on the rows of an array.\<close>

definition row0 :: "'a list \<Rightarrow> error + 'a" where
  "row0 a = (case a of [] \<Rightarrow> Inl IndexError | x # _ \<Rightarrow> Inr x)"

text \<open>\<open>a[mask]\<close> with a boolean mask as long as \<open>a\<close>: the rows whose mask entry is
  true, in order; the number of dimensions stays.\<close>

definition mask_select :: "pair_array \<Rightarrow> bool list \<Rightarrow> pair_array" where
  "mask_select pa keep = pa\<lparr>rows := map fst (filter snd (zip (rows pa) keep))\<rparr>"

text \<open>\<open>np.mean\<close> of one row (axis 1): 0/0 is NaN.\<close>

definition np_mean :: "real list \<Rightarrow> npfloat" where
  "np_mean xs = (if xs = [] then NaN else Num (sum_list xs / real (length xs)))"

section \<open>\<open>best_hummer_q\<close>\<close>

text \<open>Lines 42 to 48: the heavy atoms, the list of their pairs more than 3 residues
  apart, and the array \<open>np.array\<close> makes of it. The residue of an index is looked up
  with \<open>topology.atom\<close>; the indices come from the topology, so the lookup finds an
  atom.\<close>

definition far_apart :: "atom list \<Rightarrow> nat \<times> nat \<Rightarrow> bool" where
  "far_apart atoms p =
     (case atom_at atoms (fst p) of
        None \<Rightarrow> False
      | Some a \<Rightarrow>
          (case atom_at atoms (snd p) of
             None \<Rightarrow> False
           | Some b \<Rightarrow> \<bar>residue_index a - residue_index b\<bar> > 3))"

definition heavy_pair_list :: "trajectory \<Rightarrow> (nat \<times> nat) list" where
  "heavy_pair_list native =
     filter (far_apart (topology native))
       (combinations2 (select_atom_indices_heavy (topology native)))"

definition heavy_pairs :: "trajectory \<Rightarrow> pair_array" where
  "heavy_pairs native = np_array (heavy_pair_list native)"

text \<open>Line 51: \<open>md.compute_distances(native[0], heavy_pairs)[0]\<close>.\<close>

definition heavy_pairs_distances :: "trajectory \<Rightarrow> error + real list" where
  "heavy_pairs_distances native =
     (case first_frame native of
        Inl e \<Rightarrow> Inl e
      | Inr n0 \<Rightarrow>
          (case compute_distances n0 (heavy_pairs native) of
             Inl e \<Rightarrow> Inl e
           | Inr d \<Rightarrow> row0 d))"

text \<open>Line 53: \<open>heavy_pairs[heavy_pairs_distances < NATIVE_CUTOFF]\<close>.\<close>

definition native_contacts :: "trajectory \<Rightarrow> error + pair_array" where
  "native_contacts native =
     (case heavy_pairs_distances native of
        Inl e \<Rightarrow> Inl e
      | Inr ds \<Rightarrow> Inr (mask_select (heavy_pairs native) (map (\<lambda>d. d < NATIVE_CUTOFF) ds)))"

text \<open>Line 59: \<open>r0 = md.compute_distances(native[0], native_contacts)\<close>, of shape
  (1, pairs).\<close>

definition native_r0 :: "trajectory \<Rightarrow> pair_array \<Rightarrow> error + real list list" where
  "native_r0 native nc =
     (case first_frame native of
        Inl e \<Rightarrow> Inl e
      | Inr n0 \<Rightarrow> compute_distances n0 nc)"

text \<open>
  Line 61, inside out. \<open>BETA_CONST * (r - LAMBDA_CONST * r0)\<close> is elementwise, with
  numpy's broadcasting of the first axis: an array of one row is paired with every row
  of the other, arrays of as many rows are paired row by row, any other two shapes
  raise ValueError. (Here \<open>r0\<close> always has one row, and the rows of \<open>r\<close> and \<open>r0\<close> have
  one column per native contact.) \<open>np.exp\<close> is applied to the whole array;
  \<open>1.0 / (1 + _)\<close> is elementwise; \<open>np.mean(_, axis=1)\<close> averages each row.
\<close>

definition exp_arg :: "real \<Rightarrow> real \<Rightarrow> real" where
  "exp_arg rf rn = BETA_CONST * (rf - LAMBDA_CONST * rn)"

definition row_args :: "real list \<Rightarrow> real list \<Rightarrow> real list" where
  "row_args row r0row = map (\<lambda>(rf, rn). exp_arg rf rn) (zip row r0row)"

fun broadcast_args :: "real list list \<Rightarrow> real list list \<Rightarrow> error + real list list" where
  "broadcast_args r [r0row] = Inr (map (\<lambda>row. row_args row r0row) r)"
| "broadcast_args [row] r0 = Inr (map (row_args row) r0)"
| "broadcast_args r r0 =
     (if length r = length r0 then Inr (map (\<lambda>(row, r0row). row_args row r0row) (zip r r0))
      else Inl ValueError)"

definition contact_score :: "real \<Rightarrow> real" where
  "contact_score x = 1 / (1 + exp x)"

text \<open>The array handed to \<open>np.exp\<close> (lines 42 to 61 up to that call).\<close>

definition exp_arguments :: "trajectory \<Rightarrow> trajectory \<Rightarrow> error + real list list" where
  "exp_arguments traj native =
     (case native_contacts native of
        Inl e \<Rightarrow> Inl e
      | Inr nc \<Rightarrow>
          (case compute_distances traj nc of
             Inl e \<Rightarrow> Inl e
           | Inr r \<Rightarrow>
               (case native_r0 native nc of
                  Inl e \<Rightarrow> Inl e
                | Inr r0 \<Rightarrow> broadcast_args r r0)))"

definition best_hummer_q :: "trajectory \<Rightarrow> trajectory \<Rightarrow> error + npfloat list" where
  "best_hummer_q traj native =
     (case exp_arguments traj native of
        Inl e \<Rightarrow> Inl e
      | Inr args \<Rightarrow> Inr (map (\<lambda>row. np_mean (map contact_score row)) args))"



section \<open>Line 61 in float32\<close>










section \<open>The native contact set in the specification's words\<close>

text \<open>
  The specification's \<open>select_native_contacts\<close>: take the heavy atoms (the atoms that
  are not hydrogen), enumerate their unordered pairs (i, j) with i < j, keep the
  pairs more than \<open>min_residue_separation\<close> = 3 residues apart whose Euclidean
  distance in the first native frame is under \<open>native_cutoff\<close> = 0.45.
\<close>

definition all_pairs :: "nat \<Rightarrow> (nat \<times> nat) list" where
  "all_pairs n = concat (map (\<lambda>i. map (Pair i) [Suc i..<n]) [0..<n])"



text \<open>
  What the code selects, in the same form. The pairs are enumerated as pairs of
  positions k < l in the topology's atom order and reported as the pair of the two
  atoms' indices; the atoms must also belong to protein residues, the distance is the
  one \<open>md.compute_distances\<close> measures and the cutoff is the float32 one.
\<close>

definition is_code_contact :: "atom list \<Rightarrow> frame \<Rightarrow> nat \<times> nat \<Rightarrow> bool" where
  "is_code_contact atoms fr q =
     (element (atoms ! fst q) \<noteq> ''H'' \<and> is_protein (atoms ! fst q)
      \<and> element (atoms ! snd q) \<noteq> ''H'' \<and> is_protein (atoms ! snd q)
      \<and> \<bar>residue_index (atoms ! fst q) - residue_index (atoms ! snd q)\<bar> > 3
      \<and> frame_distance fr (index (atoms ! fst q), index (atoms ! snd q)) < 15099494 / 2 ^ 25)"

definition code_select_native_contacts :: "atom list \<Rightarrow> frame \<Rightarrow> (nat \<times> nat) list" where
  "code_select_native_contacts atoms fr =
     map (\<lambda>q. (index (atoms ! fst q), index (atoms ! snd q)))
       (filter (is_code_contact atoms fr) (all_pairs (length atoms)))"

section \<open>Derived notions used in the statements\<close>

text \<open>The rows of the code's native contact array, given the first native frame.\<close>

definition contact_list :: "trajectory \<Rightarrow> frame \<Rightarrow> (nat \<times> nat) list" where
  "contact_list native fr =
     filter (\<lambda>p. frame_distance fr p < NATIVE_CUTOFF) (heavy_pair_list native)"

text \<open>The score line 61 gives the pair \<open>p\<close> in the frame \<open>fr\<close>, against the native
  frame \<open>fr0\<close>, in exact arithmetic.\<close>

definition pair_score :: "frame \<Rightarrow> frame \<Rightarrow> nat \<times> nat \<Rightarrow> real" where
  "pair_score fr fr0 p = contact_score (exp_arg (frame_distance fr p) (frame_distance fr0 p))"

section \<open>Example structures\<close>

definition protein_atom :: "nat \<Rightarrow> string \<Rightarrow> int \<Rightarrow> atom" where
  "protein_atom i e r = \<lparr>index = i, element = e, is_protein = True, residue_index = r\<rparr>"

text \<open>Four protein atoms on the x axis: a carbon and its hydrogen in residue 0, a
  carbon in residue 4 at 0.3 from the first, a nitrogen in residue 8 at distance 1.\<close>

definition ex_topology :: "atom list" where
  "ex_topology =
     [protein_atom 0 ''C'' 0, protein_atom 1 ''H'' 0, protein_atom 2 ''C'' 4,
      protein_atom 3 ''N'' 8]"

definition ex_x0 :: "coord list" where
  "ex_x0 = [(0, 0, 0), (1 / 10, 0, 0), (3 / 10, 0, 0), (1, 0, 0)]"

definition ex_native :: trajectory where
  "ex_native = \<lparr>topology = ex_topology, xyz = [ex_x0], unitcell_lengths = None\<rparr>"

text \<open>A trajectory over the same topology: the native frame, then a frame with atom 2
  moved to 5.4, ten times its tolerance-scaled native distance 1.8 * 0.3.\<close>

definition ex_x1 :: "coord list" where
  "ex_x1 = [(0, 0, 0), (1 / 10, 0, 0), (54 / 10, 0, 0), (1, 0, 0)]"

definition ex_traj :: trajectory where
  "ex_traj = \<lparr>topology = ex_topology, xyz = [ex_x0, ex_x1], unitcell_lengths = None\<rparr>"

text \<open>The same frames with the hydrogen (atom 1) somewhere else.\<close>

definition ex_traj_h :: trajectory where
  "ex_traj_h = \<lparr>topology = ex_topology,
     xyz = [[(0, 0, 0), (7, 7, 7), (3 / 10, 0, 0), (1, 0, 0)],
            [(0, 0, 0), (2, 0, 5), (54 / 10, 0, 0), (1, 0, 0)]],
     unitcell_lengths = None\<rparr>"

text \<open>One frame with atom 2 at 0.9, without a unit cell and in a cubic box of edge 1:
  across the box boundary the atoms 0 and 2 are 0.1 apart.\<close>

definition ex_x9 :: "coord list" where
  "ex_x9 = [(0, 0, 0), (1 / 10, 0, 0), (9 / 10, 0, 0), (1, 0, 0)]"

definition ex_traj_free :: trajectory where
  "ex_traj_free = \<lparr>topology = ex_topology, xyz = [ex_x9], unitcell_lengths = None\<rparr>"

definition ex_traj_box :: trajectory where
  "ex_traj_box = \<lparr>topology = ex_topology, xyz = [ex_x9], unitcell_lengths = Some [(1, 1, 1)]\<rparr>"

text \<open>A trajectory of another molecule: five atoms, hydrogens at other places, other
  residues.\<close>

definition ex_traj_other :: trajectory where
  "ex_traj_other = \<lparr>topology =
       [protein_atom 0 ''O'' 0, protein_atom 1 ''O'' 0, protein_atom 2 ''H'' 1,
        protein_atom 3 ''H'' 1, protein_atom 4 ''S'' 2],
     xyz = [[(0, 0, 0), (1 / 10, 0, 0), (3 / 10, 0, 0), (1, 0, 0), (2, 0, 0)]],
     unitcell_lengths = None\<rparr>"

text \<open>A trajectory of two atoms only.\<close>

definition ex_traj_short :: trajectory where
  "ex_traj_short = \<lparr>topology = [protein_atom 0 ''C'' 0, protein_atom 1 ''C'' 4],
     xyz = [[(0, 0, 0), (3 / 10, 0, 0)]], unitcell_lengths = None\<rparr>"

text \<open>The specification's scenario: four heavy atoms in two residues.\<close>

definition ex_native_two_residues :: trajectory where
  "ex_native_two_residues = \<lparr>topology =
       [protein_atom 0 ''C'' 0, protein_atom 1 ''N'' 0, protein_atom 2 ''C'' 1,
        protein_atom 3 ''O'' 1],
     xyz = [[(0, 0, 0), (1 / 10, 0, 0), (2 / 10, 0, 0), (3 / 10, 0, 0)]],
     unitcell_lengths = None\<rparr>"

text \<open>Two heavy atoms four residues apart, at distance 1: a pair passes the residue
  filter, none the distance filter.\<close>

definition ex_far_topology :: "atom list" where
  "ex_far_topology = [protein_atom 0 ''C'' 0, protein_atom 1 ''C'' 4]"

definition ex_native_far :: trajectory where
  "ex_native_far = \<lparr>topology = ex_far_topology, xyz = [[(0, 0, 0), (1, 0, 0)]],
     unitcell_lengths = None\<rparr>"

definition ex_traj_far :: trajectory where
  "ex_traj_far = \<lparr>topology = ex_far_topology,
     xyz = [[(0, 0, 0), (1, 0, 0)], [(0, 0, 0), (2, 0, 0)]], unitcell_lengths = None\<rparr>"






section \<open>The stages of the function\<close>

text \<open>
  What each stage of \<open>best_hummer_q\<close> returns for a well-formed native structure
  with a first frame.
\<close>

lemma rows_np_array: "rows (np_array ps) = ps"
  by (simp add: np_array_def)

lemma ndim_np_array: "ndim (np_array ps) = (if ps = [] then 1 else 2)"
  by (simp add: np_array_def)

lemma set_combinations2_subset: "set (combinations2 xs) \<subseteq> set xs \<times> set xs"
  by (induction xs) auto

lemma select_heavy_bound:
  assumes "wf_trajectory t" and "i \<in> set (select_atom_indices_heavy (topology t))"
  shows "i < n_atoms t"
  using assms by (auto simp add: select_atom_indices_heavy_def wf_trajectory_def list_all_iff)

lemma heavy_pair_list_in_range:
  assumes "wf_trajectory native"
  shows "pairs_in_range (n_atoms native) (heavy_pair_list native)"
proof -
  have "fst p < n_atoms native \<and> snd p < n_atoms native"
    if "p \<in> set (heavy_pair_list native)" for p
  proof -
    from that have "p \<in> set (combinations2 (select_atom_indices_heavy (topology native)))"
      by (simp add: heavy_pair_list_def)
    then have "fst p \<in> set (select_atom_indices_heavy (topology native))
        \<and> snd p \<in> set (select_atom_indices_heavy (topology native))"
      using set_combinations2_subset by (metis mem_Times_iff subsetD)
    then show ?thesis
      using assms by (simp add: select_heavy_bound)
  qed
  then show ?thesis
    by (simp add: pairs_in_range_def list_all_iff)
qed

lemma pairs_in_range_filter: "pairs_in_range n ps \<Longrightarrow> pairs_in_range n (filter P ps)"
  by (simp add: pairs_in_range_def list_all_iff)

lemma pairs_in_range_mono: "pairs_in_range n ps \<Longrightarrow> n \<le> m \<Longrightarrow> pairs_in_range m ps"
  by (auto simp add: pairs_in_range_def list_all_iff)

lemma mask_filter: "map fst (filter snd (zip ps (map g ps))) = filter g ps"
  by (induction ps) auto

lemma zip_map_same:
  "map (\<lambda>(a, b). h a b) (zip (map f ps) (map g ps)) = map (\<lambda>p. h (f p) (g p)) ps"
  by (induction ps) auto

lemma no_heavy_no_pairs:
  "select_atom_indices_heavy (topology native) = [] \<Longrightarrow> heavy_pair_list native = []"
  by (simp add: heavy_pair_list_def)

lemma first_frame_frames:
  assumes "frames t = fr # rest"
  obtains n0 where "first_frame t = Inr n0" and "frames n0 = [fr]"
    and "topology n0 = topology t"
proof (cases "unitcell_lengths t")
  case None
  with assms obtain x xs where "xyz t = x # xs" and "fr = (None, x)"
    by (auto simp add: frames_def)
  with None have "first_frame t = Inr (t\<lparr>xyz := [x]\<rparr>)"
    and "frames (t\<lparr>xyz := [x]\<rparr>) = [fr]"
    by (simp_all add: first_frame_def frames_def)
  then show ?thesis
    by (rule that) simp
next
  case (Some cs)
  with assms obtain x xs c cs' where "xyz t = x # xs" and "cs = c # cs'" and "fr = (Some c, x)"
    by (cases "xyz t"; cases cs) (auto simp add: frames_def)
  with Some have "first_frame t = Inr (t\<lparr>xyz := [x], unitcell_lengths := Some [c]\<rparr>)"
    and "frames (t\<lparr>xyz := [x], unitcell_lengths := Some [c]\<rparr>) = [fr]"
    by (simp_all add: first_frame_def frames_def)
  then show ?thesis
    by (rule that) simp
qed

lemma first_frame_no_frame:
  assumes "frames t = []"
  shows "first_frame t = Inl IndexError"
proof (cases "xyz t")
  case Nil
  then show ?thesis by (simp add: first_frame_def)
next
  case (Cons x xs)
  with assms obtain cs where "unitcell_lengths t = Some cs" and "cs = []"
    by (cases "unitcell_lengths t") (auto simp add: frames_def)
  with Cons show ?thesis by (simp add: first_frame_def)
qed

lemma length_frames: "wf_trajectory t \<Longrightarrow> length (frames t) = length (xyz t)"
  by (cases "unitcell_lengths t") (simp_all add: frames_def wf_trajectory_def)

lemma heavy_pairs_distances_eq:
  assumes "wf_trajectory native" and "frames native = fr # rest"
  shows "heavy_pairs_distances native =
     (if heavy_pair_list native = [] then Inl ValueError
      else Inr (frame_distances (heavy_pair_list native) fr))"
proof -
  from assms(2) obtain n0 where "first_frame native = Inr n0" and "frames n0 = [fr]"
    and "topology n0 = topology native"
    by (rule first_frame_frames)
  then show ?thesis
    using heavy_pair_list_in_range [OF assms(1)]
    by (simp add: heavy_pairs_distances_def compute_distances_def heavy_pairs_def
        rows_np_array ndim_np_array n_atoms_def row0_def)
qed

lemma native_contacts_eq:
  assumes "wf_trajectory native" and "frames native = fr # rest"
  shows "native_contacts native =
     (if heavy_pair_list native = [] then Inl ValueError
      else Inr \<lparr>ndim = 2, rows = contact_list native fr\<rparr>)"
proof -
  have "map fst (filter snd (zip (heavy_pair_list native)
          (map (\<lambda>d. d < NATIVE_CUTOFF) (frame_distances (heavy_pair_list native) fr))))
        = contact_list native fr"
    unfolding frame_distances_def contact_list_def map_map comp_def
    by (rule mask_filter)
  then show ?thesis
    by (simp add: native_contacts_def heavy_pairs_distances_eq [OF assms] mask_select_def
        heavy_pairs_def np_array_def)
qed

lemma native_contacts_no_frame: "frames native = [] \<Longrightarrow> native_contacts native = Inl IndexError"
  by (simp add: native_contacts_def heavy_pairs_distances_def first_frame_no_frame)

lemma contact_list_in_range:
  "wf_trajectory native \<Longrightarrow> pairs_in_range (n_atoms native) (contact_list native fr)"
  unfolding contact_list_def by (rule pairs_in_range_filter [OF heavy_pair_list_in_range])

lemma native_r0_eq:
  assumes "wf_trajectory native" and "frames native = fr0 # rest"
  shows "native_r0 native \<lparr>ndim = 2, rows = contact_list native fr0\<rparr>
     = Inr [frame_distances (contact_list native fr0) fr0]"
proof -
  from assms(2) obtain n0 where "first_frame native = Inr n0" and "frames n0 = [fr0]"
    and "topology n0 = topology native"
    by (rule first_frame_frames)
  then show ?thesis
    using contact_list_in_range [OF assms(1), of fr0]
    by (simp add: native_r0_def compute_distances_def n_atoms_def)
qed

lemma exp_arguments_eq:
  assumes "wf_trajectory native" and "frames native = fr0 # rest"
  shows "exp_arguments traj native =
     (if heavy_pair_list native = [] then Inl ValueError
      else if \<not> pairs_in_range (n_atoms traj) (contact_list native fr0) then Inl ValueError
      else Inr (map (\<lambda>fr. map (\<lambda>p. exp_arg (frame_distance fr p) (frame_distance fr0 p))
                           (contact_list native fr0)) (frames traj)))"
  by (simp add: exp_arguments_def native_contacts_eq [OF assms] native_r0_eq [OF assms]
      compute_distances_def row_args_def frame_distances_def zip_map_same)

lemma best_hummer_q_eq:
  assumes "wf_trajectory native" and "frames native = fr0 # rest"
  shows "best_hummer_q traj native =
     (if heavy_pair_list native = [] then Inl ValueError
      else if \<not> pairs_in_range (n_atoms traj) (contact_list native fr0) then Inl ValueError
      else Inr (map (\<lambda>fr. np_mean (map (pair_score fr fr0) (contact_list native fr0)))
                  (frames traj)))"
  by (simp add: best_hummer_q_def exp_arguments_eq [OF assms] pair_score_def [abs_def] comp_def)

lemma best_hummer_q_no_frame:
  "frames native = [] \<Longrightarrow> best_hummer_q traj native = Inl IndexError"
  by (simp add: best_hummer_q_def exp_arguments_def native_contacts_no_frame)

lemma native_contacts_rows:
  assumes "wf_trajectory native" and "frames native = fr0 # rest"
    and "native_contacts native = Inr nc"
  shows "heavy_pair_list native \<noteq> []" and "nc = \<lparr>ndim = 2, rows = contact_list native fr0\<rparr>"
  using assms(3) by (auto simp add: native_contacts_eq [OF assms(1,2)] split: if_splits)

lemma nth_frames:
  assumes "f < length (frames t)"
  shows "f < length (xyz t)"
    and "snd (frames t ! f) = xyz t ! f"
    and "fst (frames t ! f) = map_option (\<lambda>cs. cs ! f) (unitcell_lengths t)"
  using assms by (cases "unitcell_lengths t"; simp add: frames_def)+

lemma length_frames_cong:
  assumes "unitcell_lengths t1 = unitcell_lengths t2" and "length (xyz t1) = length (xyz t2)"
  shows "length (frames t1) = length (frames t2)"
  using assms by (cases "unitcell_lengths t2") (simp_all add: frames_def)

lemma frame_distance_cong:
  assumes "fst fr1 = fst fr2"
    and "snd fr1 ! fst p = snd fr2 ! fst p" and "snd fr1 ! snd p = snd fr2 ! snd p"
  shows "frame_distance fr1 p = frame_distance fr2 p"
  using assms by (cases "fst fr2") (simp_all add: frame_distance_def)

section \<open>The code's contact set as a filtered enumeration\<close>

lemma combinations2_filter:
  "combinations2 (filter P xs) = filter (\<lambda>p. P (fst p) \<and> P (snd p)) (combinations2 xs)"
proof (induction xs)
  case Nil
  then show ?case by simp
next
  case (Cons x xs)
  have "filter (\<lambda>p. P (fst p) \<and> P (snd p)) (map (Pair x) xs)
      = (if P x then map (Pair x) (filter P xs) else [])"
    by (induction xs) auto
  with Cons show ?case by simp
qed

lemma combinations2_upt:
  "combinations2 [i..<n] = concat (map (\<lambda>k. map (Pair k) [Suc k..<n]) [i..<n])"
proof (induction "n - i" arbitrary: i)
  case 0
  then show ?case by simp
next
  case (Suc d)
  then have "i < n" and "d = n - Suc i" by simp_all
  with Suc.hyps(1) [of "Suc i"] show ?case
    by (simp add: upt_conv_Cons)
qed

lemma set_all_pairs: "p \<in> set (all_pairs n) \<longleftrightarrow> fst p < snd p \<and> snd p < n"
proof (cases p)
  case (Pair a b)
  have "a < b \<Longrightarrow> b < n \<Longrightarrow> \<exists>x\<in>{0..<n}. (a, b) \<in> Pair x ` {Suc x..<n}"
    by (rule bexI [of _ a]) auto
  with Pair show ?thesis
    by (auto simp add: all_pairs_def)
qed




lemma find_distinct:
  assumes "distinct (map f xs)" and "x \<in> set xs"
  shows "find (\<lambda>a. f a = f x) xs = Some x"
  using assms by (induction xs) (auto simp add: image_iff)

lemma combinations2_map:
  "combinations2 (map f xs) = map (\<lambda>q. (f (fst q), f (snd q))) (combinations2 xs)"
  by (induction xs) (simp_all add: comp_def)

lemma select_heavy_positions:
  "select_atom_indices_heavy atoms =
     map (\<lambda>i. index (atoms ! i))
       (filter (\<lambda>i. element (atoms ! i) \<noteq> ''H'' \<and> is_protein (atoms ! i)) [0..<length atoms])"
proof -
  let ?P = "\<lambda>a. element a \<noteq> ''H'' \<and> is_protein a"
  have "filter ?P atoms = filter ?P (map (nth atoms) [0..<length atoms])"
    by (simp only: map_nth)
  also have "\<dots> = map (nth atoms) (filter (\<lambda>i. ?P (atoms ! i)) [0..<length atoms])"
    by (simp add: filter_map comp_def)
  finally show ?thesis
    by (simp add: select_atom_indices_heavy_def comp_def)
qed

lemma atom_at_nth:
  assumes "distinct (map index atoms)" and "i < length atoms"
  shows "atom_at atoms (index (atoms ! i)) = Some (atoms ! i)"
proof -
  from assms(2) have "atoms ! i \<in> set atoms" by simp
  with assms(1) have "find (\<lambda>a. index a = index (atoms ! i)) atoms = Some (atoms ! i)"
    by (rule find_distinct)
  then show ?thesis
    by (simp add: atom_at_def)
qed

lemma far_apart_nth:
  assumes "distinct (map index atoms)" and "fst q < length atoms" and "snd q < length atoms"
  shows "far_apart atoms (index (atoms ! fst q), index (atoms ! snd q))
     \<longleftrightarrow> \<bar>residue_index (atoms ! fst q) - residue_index (atoms ! snd q)\<bar> > 3"
  using assms by (simp add: far_apart_def atom_at_nth)

lemma contact_list_positions:
  assumes "distinct (map index (topology native))"
  shows "contact_list native fr = code_select_native_contacts (topology native) fr"
proof -
  let ?atoms = "topology native"
  let ?H = "\<lambda>i. element (?atoms ! i) \<noteq> ''H'' \<and> is_protein (?atoms ! i)"
  let ?g = "\<lambda>q. (index (?atoms ! fst q), index (?atoms ! snd q))"
  let ?n = "length ?atoms"
  have "combinations2 (select_atom_indices_heavy ?atoms)
      = map ?g (filter (\<lambda>q. ?H (fst q) \<and> ?H (snd q)) (all_pairs ?n))"
    by (simp add: select_heavy_positions combinations2_map combinations2_filter
        combinations2_upt all_pairs_def)
  then have "contact_list native fr
      = map ?g (filter (\<lambda>q. ((?H (fst q) \<and> ?H (snd q)) \<and> far_apart ?atoms (?g q))
                  \<and> frame_distance fr (?g q) < NATIVE_CUTOFF) (all_pairs ?n))"
    by (simp add: contact_list_def heavy_pair_list_def filter_map comp_def conj_commute
        conj_left_commute)
  also have "filter (\<lambda>q. ((?H (fst q) \<and> ?H (snd q)) \<and> far_apart ?atoms (?g q))
                  \<and> frame_distance fr (?g q) < NATIVE_CUTOFF) (all_pairs ?n)
      = filter (is_code_contact ?atoms fr) (all_pairs ?n)"
    by (rule filter_cong)
      (auto simp add: set_all_pairs far_apart_nth [OF assms] is_code_contact_def NATIVE_CUTOFF_def)
  finally show ?thesis
    by (simp add: code_select_native_contacts_def)
qed



lemma NATIVE_CUTOFF_less: "NATIVE_CUTOFF < 45 / 100"
  by (simp add: NATIVE_CUTOFF_def)

section \<open>Rounding to float32\<close>




























section \<open>Properties of line 61 in float32\<close>


















section \<open>The sigmoid and the distance\<close>

lemma contact_score_pos: "0 < contact_score x"
  by (simp add: contact_score_def add_pos_pos)

lemma contact_score_less_1: "contact_score x < 1"
  by (simp add: contact_score_def add_pos_pos)









lemma distance_x_axis: "distance (x1, y, z) (x2, y, z) = \<bar>x1 - x2\<bar>"
  by (simp add: distance_def)

lemma mic_distance_x_axis: "mic_distance (lx, ly, lz) (x1, y, z) (x2, y, z) = \<bar>wrap lx (x2 - x1)\<bar>"
  by (simp add: mic_distance_def wrap_def)




lemma sum_list_unit_bounds:
  assumes "\<And>x. x \<in> set xs \<Longrightarrow> 0 \<le> x \<and> x \<le> (1::real)"
  shows "0 \<le> sum_list xs \<and> sum_list xs \<le> real (length xs)"
  using assms by (induction xs) (auto simp add: add_nonneg_nonneg intro: add_mono)

lemma mean_unit_bounds:
  assumes "xs \<noteq> []" and "\<And>x. x \<in> set xs \<Longrightarrow> 0 \<le> x \<and> x \<le> (1::real)"
  shows "0 \<le> sum_list xs / real (length xs) \<and> sum_list xs / real (length xs) \<le> 1"
  using sum_list_unit_bounds [OF assms(2)] assms(1) by simp

lemma pair_score_unit: "0 \<le> pair_score fr fr0 p \<and> pair_score fr fr0 p \<le> 1"
  using contact_score_pos contact_score_less_1
  by (simp add: pair_score_def less_imp_le)

lemma np_mean_unit:
  assumes "ps \<noteq> []"
  shows "\<exists>v. np_mean (map (pair_score fr fr0) ps) = Num v \<and> 0 \<le> v \<and> v \<le> 1"
proof -
  have "map (pair_score fr fr0) ps \<noteq> []"
    using assms by simp
  moreover have "0 \<le> x \<and> x \<le> 1" if "x \<in> set (map (pair_score fr fr0) ps)" for x
  proof -
    from that obtain p where "x = pair_score fr fr0 p" by auto
    then show ?thesis by (simp add: pair_score_unit)
  qed
  ultimately show ?thesis
    using mean_unit_bounds [of "map (pair_score fr fr0) ps"] by (simp add: np_mean_def)
qed



section \<open>Evaluating the examples\<close>

lemma frames_ex_native: "frames ex_native = [(None, ex_x0)]"
  by (simp add: frames_def ex_native_def)

lemma frames_ex_traj: "frames ex_traj = [(None, ex_x0), (None, ex_x1)]"
  by (simp add: frames_def ex_traj_def)

lemma wf_ex_native: "wf_trajectory ex_native"
  by (simp add: wf_trajectory_def ex_native_def ex_x0_def n_atoms_def ex_topology_def
      protein_atom_def)

lemma wf_ex_traj: "wf_trajectory ex_traj"
  by (simp add: wf_trajectory_def ex_traj_def ex_x0_def ex_x1_def n_atoms_def
      ex_topology_def protein_atom_def)


lemma heavy_pair_list_ex_native: "heavy_pair_list ex_native = [(0, 2), (0, 3), (2, 3)]"
  by (simp add: heavy_pair_list_def select_atom_indices_heavy_def far_apart_def atom_at_def
      ex_native_def ex_topology_def protein_atom_def)

lemma frame_distance_ex0:
  "frame_distance (None, ex_x0) (0, 2) = 3 / 10"
  "frame_distance (None, ex_x0) (0, 3) = 1"
  "frame_distance (None, ex_x0) (2, 3) = 7 / 10"
  by (simp_all add: frame_distance_def ex_x0_def distance_x_axis)

lemma frame_distance_ex1: "frame_distance (None, ex_x1) (0, 2) = 27 / 5"
  by (simp add: frame_distance_def ex_x1_def distance_x_axis)

lemma frame_distance_ex9_free: "frame_distance (None, ex_x9) (0, 2) = 9 / 10"
  by (simp add: frame_distance_def ex_x9_def distance_x_axis)

lemma frame_distance_ex9_box: "frame_distance (Some (1, 1, 1), ex_x9) (0, 2) = 1 / 10"
  by (simp add: frame_distance_def ex_x9_def mic_distance_x_axis wrap_def round_def)

lemma contact_list_ex_native: "contact_list ex_native (None, ex_x0) = [(0, 2)]"
  by (simp add: contact_list_def heavy_pair_list_ex_native frame_distance_ex0 NATIVE_CUTOFF_def)

lemma native_contacts_ex_native: "native_contacts ex_native = Inr \<lparr>ndim = 2, rows = [(0, 2)]\<rparr>"
  using native_contacts_eq [OF wf_ex_native frames_ex_native]
  by (simp add: heavy_pair_list_ex_native contact_list_ex_native)

lemma heavy_pairs_distances_ex_native:
  "heavy_pairs_distances ex_native = Inr [3 / 10, 1, 7 / 10]"
  using heavy_pairs_distances_eq [OF wf_ex_native frames_ex_native]
  by (simp add: heavy_pair_list_ex_native frame_distances_def frame_distance_ex0)

lemma exp_arg_ex:
  "exp_arg (3 / 10) (3 / 10) = - 12"
  "exp_arg (27 / 5) (3 / 10) = 243"
  "exp_arg (9 / 10) (3 / 10) = 18"
  "exp_arg (1 / 10) (3 / 10) = - 22"
  by (simp_all add: exp_arg_def BETA_CONST_def LAMBDA_CONST_def)

lemma pair_score_ex:
  "pair_score (None, ex_x0) (None, ex_x0) (0, 2) = 1 / (1 + exp (- 12))"
  "pair_score (None, ex_x1) (None, ex_x0) (0, 2) = 1 / (1 + exp 243)"
  "pair_score (None, ex_x9) (None, ex_x0) (0, 2) = 1 / (1 + exp 18)"
  "pair_score (Some (1, 1, 1), ex_x9) (None, ex_x0) (0, 2) = 1 / (1 + exp (- 22))"
  by (simp_all only: pair_score_def frame_distance_ex0 frame_distance_ex1
      frame_distance_ex9_free frame_distance_ex9_box exp_arg_ex contact_score_def)

lemma in_range_ex: "pairs_in_range 4 [(0, 2)]" "pairs_in_range 5 [(0, 2)]"
  "\<not> pairs_in_range 2 [(0, 2)]"
  by (simp_all add: pairs_in_range_def)

lemma n_atoms_ex: "n_atoms ex_native = 4" "n_atoms ex_traj = 4"
  by (simp_all add: n_atoms_def ex_native_def ex_traj_def ex_topology_def)


lemma best_hummer_q_ex:
  "best_hummer_q ex_traj ex_native = Inr [Num (1 / (1 + exp (- 12))), Num (1 / (1 + exp 243))]"
  using best_hummer_q_eq [OF wf_ex_native frames_ex_native, of ex_traj]
  by (simp add: heavy_pair_list_ex_native contact_list_ex_native n_atoms_ex in_range_ex
      frames_ex_traj np_mean_def pair_score_ex)

lemma frames_ex_traj_free: "frames ex_traj_free = [(None, ex_x9)]"
  by (simp add: frames_def ex_traj_free_def)

lemma frames_ex_traj_box: "frames ex_traj_box = [(Some (1, 1, 1), ex_x9)]"
  by (simp add: frames_def ex_traj_box_def)

lemma wf_ex_traj_free: "wf_trajectory ex_traj_free"
  by (simp add: wf_trajectory_def ex_traj_free_def ex_x9_def n_atoms_def ex_topology_def
      protein_atom_def)

lemma wf_ex_traj_box: "wf_trajectory ex_traj_box"
  by (simp add: wf_trajectory_def ex_traj_box_def ex_x9_def n_atoms_def ex_topology_def
      protein_atom_def positive_cell_def)

lemma n_atoms_ex_box: "n_atoms ex_traj_free = 4" "n_atoms ex_traj_box = 4"
  by (simp_all add: n_atoms_def ex_traj_free_def ex_traj_box_def ex_topology_def)

lemma best_hummer_q_ex_free:
  "best_hummer_q ex_traj_free ex_native = Inr [Num (1 / (1 + exp 18))]"
  using best_hummer_q_eq [OF wf_ex_native frames_ex_native, of ex_traj_free]
  by (simp add: heavy_pair_list_ex_native contact_list_ex_native n_atoms_ex_box in_range_ex
      frames_ex_traj_free np_mean_def pair_score_ex)

lemma best_hummer_q_ex_box:
  "best_hummer_q ex_traj_box ex_native = Inr [Num (1 / (1 + exp (- 22)))]"
  using best_hummer_q_eq [OF wf_ex_native frames_ex_native, of ex_traj_box]
  by (simp add: heavy_pair_list_ex_native contact_list_ex_native n_atoms_ex_box in_range_ex
      frames_ex_traj_box np_mean_def pair_score_ex)

lemma sigmoid_18_22: "(1 :: real) / (1 + exp (- 22)) \<noteq> 1 / (1 + exp 18)"
  by simp











lemma frames_ex_traj_other:
  "frames ex_traj_other
     = [(None, [(0, 0, 0), (1 / 10, 0, 0), (3 / 10, 0, 0), (1, 0, 0), (2, 0, 0)])]"
  by (simp add: frames_def ex_traj_other_def)

lemma wf_ex_traj_other: "wf_trajectory ex_traj_other"
  by (simp add: wf_trajectory_def ex_traj_other_def n_atoms_def protein_atom_def)

lemma wf_ex_traj_short: "wf_trajectory ex_traj_short"
  by (simp add: wf_trajectory_def ex_traj_short_def n_atoms_def protein_atom_def)

lemma n_atoms_ex_other: "n_atoms ex_traj_other = 5" "n_atoms ex_traj_short = 2"
  by (simp_all add: n_atoms_def ex_traj_other_def ex_traj_short_def)

lemma pair_score_ex_other:
  "pair_score (None, [(0, 0, 0), (1 / 10, 0, 0), (3 / 10, 0, 0), (1, 0, 0), (2, 0, 0)])
     (None, ex_x0) (0, 2) = 1 / (1 + exp (- 12))"
proof -
  have d: "frame_distance (None, [(0, 0, 0), (1 / 10, 0, 0), (3 / 10, 0, 0), (1, 0, 0), (2, 0, 0)])
      (0, 2) = 3 / 10"
    by (simp add: frame_distance_def distance_x_axis)
  show ?thesis
    unfolding pair_score_def d frame_distance_ex0 exp_arg_ex
    by (simp add: contact_score_def)
qed

lemma best_hummer_q_ex_other:
  "best_hummer_q ex_traj_other ex_native = Inr [Num (1 / (1 + exp (- 12)))]"
  by (simp add: best_hummer_q_eq [OF wf_ex_native frames_ex_native] heavy_pair_list_ex_native
      contact_list_ex_native n_atoms_ex_other in_range_ex frames_ex_traj_other np_mean_def
      pair_score_ex_other)

lemma wf_ex_native_two_residues: "wf_trajectory ex_native_two_residues"
  by (simp add: wf_trajectory_def ex_native_two_residues_def n_atoms_def protein_atom_def)

lemma frames_ex_native_two_residues:
  "frames ex_native_two_residues
     = [(None, [(0, 0, 0), (1 / 10, 0, 0), (2 / 10, 0, 0), (3 / 10, 0, 0)])]"
  by (simp add: frames_def ex_native_two_residues_def)

lemma heavy_pair_list_ex_native_two_residues: "heavy_pair_list ex_native_two_residues = []"
  by (simp add: heavy_pair_list_def select_atom_indices_heavy_def far_apart_def atom_at_def
      ex_native_two_residues_def protein_atom_def)

lemma wf_ex_native_far: "wf_trajectory ex_native_far"
  by (simp add: wf_trajectory_def ex_native_far_def ex_far_topology_def n_atoms_def
      protein_atom_def)

lemma wf_ex_traj_far: "wf_trajectory ex_traj_far"
  by (simp add: wf_trajectory_def ex_traj_far_def ex_far_topology_def n_atoms_def
      protein_atom_def)

lemma frames_ex_native_far: "frames ex_native_far = [(None, [(0, 0, 0), (1, 0, 0)])]"
  by (simp add: frames_def ex_native_far_def)

lemma frames_ex_traj_far:
  "frames ex_traj_far = [(None, [(0, 0, 0), (1, 0, 0)]), (None, [(0, 0, 0), (2, 0, 0)])]"
  by (simp add: frames_def ex_traj_far_def)

lemma heavy_pair_list_ex_native_far: "heavy_pair_list ex_native_far = [(0, 1)]"
  by (simp add: heavy_pair_list_def select_atom_indices_heavy_def far_apart_def atom_at_def
      ex_native_far_def ex_far_topology_def protein_atom_def)

lemma contact_list_ex_native_far:
  "contact_list ex_native_far (None, [(0, 0, 0), (1, 0, 0)]) = []"
  by (simp add: contact_list_def heavy_pair_list_ex_native_far frame_distance_def
      distance_x_axis NATIVE_CUTOFF_def)

lemma native_contacts_ex_native_far:
  "native_contacts ex_native_far = Inr \<lparr>ndim = 2, rows = []\<rparr>"
  by (simp add: native_contacts_eq [OF wf_ex_native_far frames_ex_native_far]
      heavy_pair_list_ex_native_far contact_list_ex_native_far)

lemma best_hummer_q_ex_far:
  "best_hummer_q ex_traj_far ex_native_far = Inr [NaN, NaN]"
  "best_hummer_q ex_native_far ex_native_far = Inr [NaN]"
  by (simp_all add: best_hummer_q_eq [OF wf_ex_native_far frames_ex_native_far]
      heavy_pair_list_ex_native_far contact_list_ex_native_far pairs_in_range_def np_mean_def
      frames_ex_traj_far frames_ex_native_far)









section \<open>The claims\<close>

subsection \<open>The frame score is the mean of the sigmoid\<close>

text \<open>
  C1, as the code has it. For a native structure with a non-empty native contact set,
  \<open>best_hummer_q\<close> returns one score per frame of the trajectory, in frame order, as
  soon as the atoms of the contact pairs are atoms of the trajectory (it raises
  ValueError otherwise; a trajectory with at least as many atoms as the native
  structure has them). In exact arithmetic the score of a frame is the arithmetic
  mean, over the retained pairs, of 1 / (1 + exp (beta * (r_f[p] - lambda_factor *
  r0[p]))) with beta = 50 and lambda_factor = 1.8, where r_f[p] and r0[p] are the
  distances \<open>md.compute_distances\<close> measures in the frame and in the first native frame:
  the Euclidean distance in a frame without unit cell, the minimum-image distance in a
  frame with one.
\<close>

theorem frame_score_is_mean:
  assumes "wf_trajectory native" and "wf_trajectory traj"
    and "frames native = fr0 # rest"
    and "native_contacts native = Inr nc"
    and "rows nc \<noteq> []"
  shows "best_hummer_q traj native =
       (if pairs_in_range (n_atoms traj) (rows nc)
        then Inr (map (\<lambda>fr. Num ((\<Sum>p\<leftarrow>rows nc.
                    1 / (1 + exp (50 * (frame_distance fr p - 18 / 10 * frame_distance fr0 p))))
                  / real (length (rows nc))))
               (frames traj))
        else Inl ValueError)
     \<and> (n_atoms native \<le> n_atoms traj \<longrightarrow> pairs_in_range (n_atoms traj) (rows nc))
     \<and> length (frames traj) = length (xyz traj)
     \<and> (fst fr = None \<longrightarrow> frame_distance fr p = distance (snd fr ! fst p) (snd fr ! snd p))
     \<and> (fst fr = Some c \<longrightarrow> frame_distance fr p = mic_distance c (snd fr ! fst p) (snd fr ! snd p))"
proof -
  from native_contacts_rows [OF assms(1,3,4)]
  have ne: "heavy_pair_list native \<noteq> []" and nc: "rows nc = contact_list native fr0"
    by simp_all
  have "pairs_in_range (n_atoms traj) (rows nc)" if "n_atoms native \<le> n_atoms traj"
    using contact_list_in_range [OF assms(1), of fr0] that nc by (simp add: pairs_in_range_mono)
  moreover have "best_hummer_q traj native =
       (if pairs_in_range (n_atoms traj) (rows nc)
        then Inr (map (\<lambda>fr. Num ((\<Sum>p\<leftarrow>rows nc.
                    1 / (1 + exp (50 * (frame_distance fr p - 18 / 10 * frame_distance fr0 p))))
                  / real (length (rows nc))))
               (frames traj))
        else Inl ValueError)"
    using ne nc assms(5)
    by (simp add: best_hummer_q_eq [OF assms(1,3)] np_mean_def pair_score_def [abs_def]
        contact_score_def exp_arg_def BETA_CONST_def LAMBDA_CONST_def)
  ultimately show ?thesis
    by (simp add: length_frames [OF assms(2)] frame_distance_def)
qed

theorem frame_score_is_mean_witness:
  "wf_trajectory ex_native \<and> wf_trajectory ex_traj \<and> frames ex_native = (None, ex_x0) # []
   \<and> native_contacts ex_native = Inr \<lparr>ndim = 2, rows = [(0, 2)]\<rparr>
   \<and> pairs_in_range (n_atoms ex_traj) [(0, 2)]
   \<and> best_hummer_q ex_traj ex_native
       = Inr [Num (1 / (1 + exp (- 12))), Num (1 / (1 + exp 243))]"
proof -
  have ne: "rows \<lparr>ndim = 2, rows = [(0, 2)]\<rparr> \<noteq> []" by simp
  from frame_score_is_mean [OF wf_ex_native wf_ex_traj frames_ex_native
      native_contacts_ex_native ne]
  have "best_hummer_q ex_traj ex_native
       = Inr [Num (1 / (1 + exp (- 12))), Num (1 / (1 + exp 243))]"
    by (simp add: n_atoms_ex in_range_ex frames_ex_traj frame_distance_ex0 frame_distance_ex1)
  then show ?thesis
    by (simp add: wf_ex_native wf_ex_traj frames_ex_native native_contacts_ex_native n_atoms_ex
        in_range_ex)
qed

text \<open>
  C1 as stated fails on a trajectory with a unit cell. In a cubic box of edge 1 the
  atoms 0 and 2, at 0 and 0.9, are scored at their minimum-image distance 0.1: the
  score is 1 / (1 + exp (- 22)), while the formula on the Euclidean distance 0.9 gives
  1 / (1 + exp 18).
\<close>

theorem frame_score_is_mean_counterexample:
  "wf_trajectory ex_native \<and> wf_trajectory ex_traj_box
   \<and> native_contacts ex_native = Inr \<lparr>ndim = 2, rows = [(0, 2)]\<rparr>
   \<and> best_hummer_q ex_traj_box ex_native = Inr [Num (1 / (1 + exp (- 22)))]
   \<and> distance (ex_x9 ! 0) (ex_x9 ! 2) = 9 / 10
   \<and> distance (ex_x0 ! 0) (ex_x0 ! 2) = 3 / 10
   \<and> 1 / (1 + exp (50 * (9 / 10 - 18 / 10 * (3 / 10)))) = (1 :: real) / (1 + exp 18)
   \<and> (1 :: real) / (1 + exp (- 22)) \<noteq> 1 / (1 + exp 18)"
  by (simp add: wf_ex_native wf_ex_traj_box native_contacts_ex_native best_hummer_q_ex_box
      ex_x9_def ex_x0_def distance_x_axis)

subsection \<open>The native contact set\<close>




subsection \<open>The exponential is not guarded\<close>




subsection \<open>A trajectory of another topology\<close>

text \<open>
  C4, as the code has it. \<open>best_hummer_q\<close> never compares the trajectory's topology
  with the native structure's. The only check is the bounds check of
  \<open>md.compute_distances\<close>: when an index of a native-contact pair is not an atom index
  of the trajectory, the call raises ValueError before any distance of the trajectory
  is computed, and nothing is returned; that cannot happen when the trajectory has at
  least as many atoms as the native structure. In every other case the scores are
  returned, computed from the coordinates found at the native pair indices, and they
  are the same for every topology of that many atoms.
\<close>

theorem topology_is_not_compared:
  assumes "wf_trajectory native" and "wf_trajectory traj"
    and "frames native = fr0 # rest"
    and "native_contacts native = Inr nc"
  shows "best_hummer_q traj native =
       (if pairs_in_range (n_atoms traj) (rows nc)
        then Inr (map (\<lambda>fr. np_mean (map (pair_score fr fr0) (rows nc))) (frames traj))
        else Inl ValueError)
     \<and> (n_atoms native \<le> n_atoms traj \<longrightarrow> pairs_in_range (n_atoms traj) (rows nc))
     \<and> (length atoms' = n_atoms traj \<longrightarrow>
           best_hummer_q (traj\<lparr>topology := atoms'\<rparr>) native = best_hummer_q traj native)"
proof -
  from native_contacts_rows [OF assms(1,3,4)] have ne: "heavy_pair_list native \<noteq> []"
    and nc: "rows nc = contact_list native fr0"
    by simp_all
  have "pairs_in_range (n_atoms traj) (rows nc)" if "n_atoms native \<le> n_atoms traj"
    using contact_list_in_range [OF assms(1), of fr0] that nc by (simp add: pairs_in_range_mono)
  moreover have "frames (traj\<lparr>topology := atoms'\<rparr>) = frames traj"
    by (cases "unitcell_lengths traj") (simp_all add: frames_def)
  ultimately show ?thesis
    using ne nc by (simp add: best_hummer_q_eq [OF assms(1,3)] n_atoms_def)
qed

theorem topology_is_not_compared_witness:
  "wf_trajectory ex_native \<and> wf_trajectory ex_traj_other \<and> wf_trajectory ex_traj_short
   \<and> frames ex_native = (None, ex_x0) # []
   \<and> native_contacts ex_native = Inr \<lparr>ndim = 2, rows = [(0, 2)]\<rparr>
   \<and> n_atoms ex_native \<le> n_atoms ex_traj_other
   \<and> best_hummer_q ex_traj_other ex_native = Inr [Num (1 / (1 + exp (- 12)))]
   \<and> best_hummer_q ex_traj_short ex_native = Inl ValueError"
proof -
  have n: "n_atoms ex_native \<le> n_atoms ex_traj_other"
    by (simp add: n_atoms_ex n_atoms_ex_other)
  from topology_is_not_compared [OF wf_ex_native wf_ex_traj_other frames_ex_native
      native_contacts_ex_native]
  have other: "best_hummer_q ex_traj_other ex_native = Inr [Num (1 / (1 + exp (- 12)))]"
    using n by (simp add: frames_ex_traj_other np_mean_def pair_score_ex_other)
  from topology_is_not_compared [OF wf_ex_native wf_ex_traj_short frames_ex_native
      native_contacts_ex_native]
  have short: "best_hummer_q ex_traj_short ex_native = Inl ValueError"
    by (simp add: n_atoms_ex_other in_range_ex)
  from n other short show ?thesis
    by (simp add: wf_ex_native wf_ex_traj_other wf_ex_traj_short frames_ex_native
        native_contacts_ex_native)
qed

text \<open>
  C4 as stated fails on a trajectory of another molecule: five atoms instead of four,
  and other residue indices. No mismatch is detected: a score is returned.
\<close>

theorem topology_is_not_compared_counterexample:
  "n_atoms ex_traj_other \<noteq> n_atoms ex_native
   \<and> map residue_index (topology ex_traj_other) \<noteq> map residue_index (topology ex_native)
   \<and> best_hummer_q ex_traj_other ex_native = Inr [Num (1 / (1 + exp (- 12)))]"
proof -
  have "map residue_index (topology ex_traj_other) \<noteq> map residue_index (topology ex_native)"
    by (simp add: ex_traj_other_def ex_native_def ex_topology_def)
  then show ?thesis
    by (simp add: n_atoms_ex n_atoms_ex_other best_hummer_q_ex_other)
qed

subsection \<open>An empty native contact set\<close>

text \<open>
  C5, as the code has it. Take a native structure with a first frame. When no pair of
  heavy atoms is more than 3 residues apart (in particular when there is no heavy
  atom), \<open>np.array\<close> of the empty list is one-dimensional and the first
  \<open>md.compute_distances\<close> raises ValueError: no contact set and no score is returned.
  When pairs pass the residue filter and none the distance filter, the native contact
  set is the empty array of shape (0, 2) and the score of every frame of the
  trajectory is NaN, the mean of an empty row; it is not 0.
\<close>

theorem empty_contact_set_scores:
  assumes "wf_trajectory native" and "wf_trajectory traj"
    and "frames native = fr0 # rest"
  shows "(select_atom_indices_heavy (topology native) = [] \<longrightarrow> heavy_pair_list native = [])
     \<and> (heavy_pair_list native = [] \<longrightarrow>
           native_contacts native = Inl ValueError
           \<and> best_hummer_q traj native = Inl ValueError)
     \<and> (heavy_pair_list native \<noteq> []
          \<and> code_select_native_contacts (topology native) fr0 = [] \<longrightarrow>
           native_contacts native = Inr \<lparr>ndim = 2, rows = []\<rparr>
           \<and> best_hummer_q traj native = Inr (replicate (length (xyz traj)) NaN))"
proof (intro conjI impI)
  assume "select_atom_indices_heavy (topology native) = []"
  then show "heavy_pair_list native = []" by (rule no_heavy_no_pairs)
next
  assume "heavy_pair_list native = []"
  then show "native_contacts native = Inl ValueError"
    and "best_hummer_q traj native = Inl ValueError"
    by (simp_all add: native_contacts_eq [OF assms(1,3)] best_hummer_q_eq [OF assms(1,3)])
next
  from assms(1) have "distinct (map index (topology native))"
    by (simp add: wf_trajectory_def)
  then have "contact_list native fr0 = code_select_native_contacts (topology native) fr0"
    by (rule contact_list_positions)
  moreover assume "heavy_pair_list native \<noteq> []
    \<and> code_select_native_contacts (topology native) fr0 = []"
  ultimately have ne: "heavy_pair_list native \<noteq> []" and empty: "contact_list native fr0 = []"
    by simp_all
  from ne empty show "native_contacts native = Inr \<lparr>ndim = 2, rows = []\<rparr>"
    by (simp add: native_contacts_eq [OF assms(1,3)])
  have "map (\<lambda>fr. NaN) (frames traj) = replicate (length (xyz traj)) NaN"
    by (simp add: map_replicate_const length_frames [OF assms(2)])
  with ne empty show "best_hummer_q traj native = Inr (replicate (length (xyz traj)) NaN)"
    by (simp add: best_hummer_q_eq [OF assms(1,3)] pairs_in_range_def np_mean_def)
qed

theorem empty_contact_set_scores_witness:
  "wf_trajectory ex_native_two_residues \<and> wf_trajectory ex_native_far \<and> wf_trajectory ex_traj_far
   \<and> heavy_pair_list ex_native_two_residues = []
   \<and> native_contacts ex_native_two_residues = Inl ValueError
   \<and> best_hummer_q ex_native_two_residues ex_native_two_residues = Inl ValueError
   \<and> heavy_pair_list ex_native_far = [(0, 1)]
   \<and> code_select_native_contacts (topology ex_native_far) (None, [(0, 0, 0), (1, 0, 0)]) = []
   \<and> native_contacts ex_native_far = Inr \<lparr>ndim = 2, rows = []\<rparr>
   \<and> best_hummer_q ex_traj_far ex_native_far = Inr [NaN, NaN]"
proof -
  have "distinct (map index (topology ex_native_far))"
    using wf_ex_native_far by (simp add: wf_trajectory_def)
  from contact_list_positions [OF this, of "(None, [(0, 0, 0), (1, 0, 0)])"]
  have none: "code_select_native_contacts (topology ex_native_far) (None, [(0, 0, 0), (1, 0, 0)])
      = []"
    by (simp add: contact_list_ex_native_far)
  from empty_contact_set_scores [OF wf_ex_native_two_residues wf_ex_native_two_residues
      frames_ex_native_two_residues]
  have two: "native_contacts ex_native_two_residues = Inl ValueError
      \<and> best_hummer_q ex_native_two_residues ex_native_two_residues = Inl ValueError"
    by (simp add: heavy_pair_list_ex_native_two_residues)
  have len: "length (xyz ex_traj_far) = 2"
    by (simp add: ex_traj_far_def)
  from empty_contact_set_scores [OF wf_ex_native_far wf_ex_traj_far frames_ex_native_far] none
  have far: "native_contacts ex_native_far = Inr \<lparr>ndim = 2, rows = []\<rparr>
      \<and> best_hummer_q ex_traj_far ex_native_far = Inr [NaN, NaN]"
    by (simp add: heavy_pair_list_ex_native_far len numeral_2_eq_2)
  from two far none show ?thesis
    by (simp add: wf_ex_native_two_residues wf_ex_native_far wf_ex_traj_far
        heavy_pair_list_ex_native_two_residues heavy_pair_list_ex_native_far)
qed

text \<open>
  C5 as stated fails on two heavy atoms four residues apart at distance 1: the native
  contact set is empty and both frames of the trajectory score NaN, not 0.
\<close>

theorem empty_contact_set_scores_counterexample:
  "native_contacts ex_native_far = Inr \<lparr>ndim = 2, rows = []\<rparr>
   \<and> best_hummer_q ex_traj_far ex_native_far = Inr [NaN, NaN]
   \<and> best_hummer_q ex_traj_far ex_native_far \<noteq> Inr [Num 0, Num 0]"
  by (simp add: native_contacts_ex_native_far best_hummer_q_ex_far)

subsection \<open>Scores in the unit interval\<close>

text \<open>
  C6, as the code has it. Every per-pair score lies in [0, 1], there is one score per
  frame, and with a non-empty native contact set every per-frame score is a number in
  [0, 1]. With an empty native contact set every per-frame score is NaN.
\<close>

theorem scores_in_unit_interval:
  assumes "wf_trajectory native" and "wf_trajectory traj"
    and "frames native = fr0 # rest"
    and "native_contacts native = Inr nc"
    and "best_hummer_q traj native = Inr q"
  shows "(\<forall>fr\<in>set (frames traj). \<forall>p\<in>set (rows nc).
            0 \<le> pair_score fr fr0 p \<and> pair_score fr fr0 p \<le> 1)
     \<and> q = map (\<lambda>fr. np_mean (map (pair_score fr fr0) (rows nc))) (frames traj)
     \<and> length q = length (xyz traj)
     \<and> (rows nc \<noteq> [] \<longrightarrow> (\<forall>s\<in>set q. \<exists>v. s = Num v \<and> 0 \<le> v \<and> v \<le> 1))
     \<and> (rows nc = [] \<longrightarrow> (\<forall>s\<in>set q. s = NaN))"
proof -
  from native_contacts_rows [OF assms(1,3,4)] have ne: "heavy_pair_list native \<noteq> []"
    and nc: "rows nc = contact_list native fr0"
    by simp_all
  from assms(5) ne nc
  have q: "q = map (\<lambda>fr. np_mean (map (pair_score fr fr0) (rows nc))) (frames traj)"
    by (auto simp add: best_hummer_q_eq [OF assms(1,3)] split: if_splits)
  have len: "length q = length (xyz traj)"
    by (simp add: q length_frames [OF assms(2)])
  have "\<forall>s\<in>set q. \<exists>v. s = Num v \<and> 0 \<le> v \<and> v \<le> 1" if "rows nc \<noteq> []"
    using np_mean_unit [OF that] by (auto simp add: q)
  moreover have "\<forall>s\<in>set q. s = NaN" if "rows nc = []"
    using that by (auto simp add: q np_mean_def)
  ultimately show ?thesis
    using q len pair_score_unit by blast
qed

theorem scores_in_unit_interval_witness:
  "wf_trajectory ex_native \<and> wf_trajectory ex_traj \<and> frames ex_native = (None, ex_x0) # []
   \<and> native_contacts ex_native = Inr \<lparr>ndim = 2, rows = [(0, 2)]\<rparr>
   \<and> best_hummer_q ex_traj ex_native
       = Inr [Num (1 / (1 + exp (- 12))), Num (1 / (1 + exp 243))]
   \<and> 0 \<le> pair_score (None, ex_x1) (None, ex_x0) (0, 2)
   \<and> pair_score (None, ex_x1) (None, ex_x0) (0, 2) \<le> 1
   \<and> (0 :: real) \<le> 1 / (1 + exp 243) \<and> (1 :: real) / (1 + exp 243) \<le> 1"
proof -
  note unit = scores_in_unit_interval [OF wf_ex_native wf_ex_traj frames_ex_native
      native_contacts_ex_native best_hummer_q_ex]
  from unit have "0 \<le> pair_score (None, ex_x1) (None, ex_x0) (0, 2)
      \<and> pair_score (None, ex_x1) (None, ex_x0) (0, 2) \<le> 1"
    by (simp add: frames_ex_traj)
  moreover from unit have "(0 :: real) \<le> 1 / (1 + exp 243) \<and> (1 :: real) / (1 + exp 243) \<le> 1"
    by simp
  ultimately show ?thesis
    by (simp add: wf_ex_native wf_ex_traj frames_ex_native native_contacts_ex_native
        best_hummer_q_ex)
qed

text \<open>
  C6 as stated fails on finite coordinates: two heavy atoms four residues apart at
  distance 1, scored against themselves, give the per-frame score NaN, which is not in
  [0, 1].
\<close>

theorem scores_in_unit_interval_counterexample:
  "best_hummer_q ex_native_far ex_native_far = Inr [NaN]"
  by (simp add: best_hummer_q_ex_far)

subsection \<open>Scoring the native frame against itself\<close>




subsection \<open>The score and the distance\<close>




subsection \<open>The reference distances\<close>

text \<open>
  C9. The reference distances \<open>r0\<close>, recomputed on the first native frame over the
  filtered contact set, are the entries of the first computed heavy-pair distances
  that the distance filter selects, in order; so every entry of \<open>r0\<close> is strictly
  under the cutoff, hence under 0.45, and the tolerance-scaled threshold 1.8 * r0[p]
  strictly under 0.81.
\<close>

theorem r0_is_filtered_distances:
  assumes "wf_trajectory native"
    and "heavy_pairs_distances native = Inr ds"
    and "native_contacts native = Inr nc"
  shows "native_r0 native nc = Inr [filter (\<lambda>d. d < NATIVE_CUTOFF) ds]
     \<and> (\<forall>d\<in>set (filter (\<lambda>d. d < NATIVE_CUTOFF) ds).
           d < NATIVE_CUTOFF \<and> d < 45 / 100 \<and> 18 / 10 * d < 81 / 100)"
proof -
  from assms(2) obtain fr rest where fr: "frames native = fr # rest"
    by (cases "frames native")
      (simp_all add: heavy_pairs_distances_def first_frame_no_frame)
  from assms(2) have ds: "ds = frame_distances (heavy_pair_list native) fr"
    and ne: "heavy_pair_list native \<noteq> []"
    by (auto simp add: heavy_pairs_distances_eq [OF assms(1) fr] split: if_splits)
  from native_contacts_rows(2) [OF assms(1) fr assms(3)]
  have nc: "nc = \<lparr>ndim = 2, rows = contact_list native fr\<rparr>" .
  have "frame_distances (contact_list native fr) fr = filter (\<lambda>d. d < NATIVE_CUTOFF) ds"
    by (simp add: ds frame_distances_def contact_list_def filter_map comp_def)
  then have "native_r0 native nc = Inr [filter (\<lambda>d. d < NATIVE_CUTOFF) ds]"
    by (simp add: nc native_r0_eq [OF assms(1) fr])
  moreover have "d < 45 / 100 \<and> 18 / 10 * d < 81 / 100" if "d < NATIVE_CUTOFF" for d
    using that NATIVE_CUTOFF_less by simp
  ultimately show ?thesis by auto
qed

theorem r0_is_filtered_distances_witness:
  "wf_trajectory ex_native
   \<and> heavy_pairs_distances ex_native = Inr [3 / 10, 1, 7 / 10]
   \<and> native_contacts ex_native = Inr \<lparr>ndim = 2, rows = [(0, 2)]\<rparr>
   \<and> native_r0 ex_native \<lparr>ndim = 2, rows = [(0, 2)]\<rparr> = Inr [[3 / 10]]"
  using r0_is_filtered_distances [OF wf_ex_native heavy_pairs_distances_ex_native
      native_contacts_ex_native]
  by (simp add: wf_ex_native heavy_pairs_distances_ex_native native_contacts_ex_native
      NATIVE_CUTOFF_def)

subsection \<open>What the scores depend on\<close>

text \<open>
  C10, as the code has it. The scores depend on the trajectory through the
  coordinates of the atoms that occur in a native-contact pair and through the unit
  cells of its frames: two trajectories with the same unit cells and as many frames
  that agree, in every frame, on the coordinates of those atoms (they may differ in
  every other atom, the hydrogens for instance, and in their number of atoms, as long
  as the contact atoms are atoms of both or of neither) get the same result from
  \<open>best_hummer_q\<close>, scores and errors alike.
\<close>

theorem scores_depend_on_contact_atoms:
  assumes "unitcell_lengths t1 = unitcell_lengths t2"
    and "length (xyz t1) = length (xyz t2)"
    and "\<forall>nc. native_contacts native = Inr nc
           \<longrightarrow> pairs_in_range (n_atoms t1) (rows nc) = pairs_in_range (n_atoms t2) (rows nc)"
    and "\<forall>nc f p. native_contacts native = Inr nc \<and> f < length (xyz t1) \<and> p \<in> set (rows nc)
           \<longrightarrow> xyz t1 ! f ! fst p = xyz t2 ! f ! fst p
             \<and> xyz t1 ! f ! snd p = xyz t2 ! f ! snd p"
  shows "best_hummer_q t1 native = best_hummer_q t2 native"
proof (cases "native_contacts native")
  case (Inl e)
  then show ?thesis by (simp add: best_hummer_q_def exp_arguments_def)
next
  case (Inr nc)
  have len: "length (frames t1) = length (frames t2)"
    using assms(1,2) by (rule length_frames_cong)
  have "frame_distances (rows nc) (frames t1 ! f) = frame_distances (rows nc) (frames t2 ! f)"
    if f: "f < length (frames t1)" for f
  proof -
    from f len have f2: "f < length (frames t2)" by simp
    have "frame_distance (frames t1 ! f) p = frame_distance (frames t2 ! f) p"
      if "p \<in> set (rows nc)" for p
    proof (rule frame_distance_cong)
      show "fst (frames t1 ! f) = fst (frames t2 ! f)"
        by (simp add: nth_frames(3) [OF f] nth_frames(3) [OF f2] assms(1))
      from assms(4) Inr nth_frames(1) [OF f] that
      have "xyz t1 ! f ! fst p = xyz t2 ! f ! fst p \<and> xyz t1 ! f ! snd p = xyz t2 ! f ! snd p"
        by blast
      then show "snd (frames t1 ! f) ! fst p = snd (frames t2 ! f) ! fst p"
        and "snd (frames t1 ! f) ! snd p = snd (frames t2 ! f) ! snd p"
        by (simp_all add: nth_frames(2) [OF f] nth_frames(2) [OF f2])
    qed
    then show ?thesis
      by (simp add: frame_distances_def)
  qed
  then have "map (frame_distances (rows nc)) (frames t1)
      = map (frame_distances (rows nc)) (frames t2)"
    using len by (intro nth_equalityI) simp_all
  moreover from assms(3) Inr
  have "pairs_in_range (n_atoms t1) (rows nc) = pairs_in_range (n_atoms t2) (rows nc)"
    by blast
  ultimately have "compute_distances t1 nc = compute_distances t2 nc"
    by (simp add: compute_distances_def)
  then show ?thesis
    by (simp add: best_hummer_q_def exp_arguments_def Inr)
qed

theorem scores_depend_on_contact_atoms_witness:
  "unitcell_lengths ex_traj = unitcell_lengths ex_traj_h
   \<and> length (xyz ex_traj) = length (xyz ex_traj_h)
   \<and> native_contacts ex_native = Inr \<lparr>ndim = 2, rows = [(0, 2)]\<rparr>
   \<and> pairs_in_range (n_atoms ex_traj) [(0, 2)] = pairs_in_range (n_atoms ex_traj_h) [(0, 2)]
   \<and> xyz ex_traj ! 0 ! 0 = xyz ex_traj_h ! 0 ! 0 \<and> xyz ex_traj ! 0 ! 2 = xyz ex_traj_h ! 0 ! 2
   \<and> xyz ex_traj ! 1 ! 0 = xyz ex_traj_h ! 1 ! 0 \<and> xyz ex_traj ! 1 ! 2 = xyz ex_traj_h ! 1 ! 2
   \<and> xyz ex_traj \<noteq> xyz ex_traj_h
   \<and> best_hummer_q ex_traj ex_native = best_hummer_q ex_traj_h ex_native"
proof -
  have cells: "unitcell_lengths ex_traj = unitcell_lengths ex_traj_h"
    by (simp add: ex_traj_def ex_traj_h_def)
  have len: "length (xyz ex_traj) = length (xyz ex_traj_h)"
    by (simp add: ex_traj_def ex_traj_h_def)
  have n: "n_atoms ex_traj = n_atoms ex_traj_h"
    by (simp add: n_atoms_def ex_traj_def ex_traj_h_def)
  then have range: "\<forall>nc. native_contacts ex_native = Inr nc
      \<longrightarrow> pairs_in_range (n_atoms ex_traj) (rows nc) = pairs_in_range (n_atoms ex_traj_h) (rows nc)"
    by simp
  have agree0: "xyz ex_traj ! 0 ! 0 = xyz ex_traj_h ! 0 ! 0 \<and> xyz ex_traj ! 0 ! 2 = xyz ex_traj_h ! 0 ! 2"
    and agree1: "xyz ex_traj ! 1 ! 0 = xyz ex_traj_h ! 1 ! 0 \<and> xyz ex_traj ! 1 ! 2 = xyz ex_traj_h ! 1 ! 2"
    and differ: "xyz ex_traj \<noteq> xyz ex_traj_h"
    by (simp_all add: ex_traj_def ex_traj_h_def ex_x0_def ex_x1_def)
  have "f = 0 \<or> f = 1" if "f < length (xyz ex_traj)" for f
    using that by (auto simp add: ex_traj_def)
  with agree0 agree1
  have agree: "\<forall>nc f p. native_contacts ex_native = Inr nc \<and> f < length (xyz ex_traj)
           \<and> p \<in> set (rows nc)
           \<longrightarrow> xyz ex_traj ! f ! fst p = xyz ex_traj_h ! f ! fst p
             \<and> xyz ex_traj ! f ! snd p = xyz ex_traj_h ! f ! snd p"
    by (auto simp add: native_contacts_ex_native)
  from scores_depend_on_contact_atoms [OF cells len range agree]
  show ?thesis
    using cells len n agree0 agree1 differ
    by (simp add: native_contacts_ex_native)
qed

text \<open>
  C10 as stated fails on two trajectories with the same coordinates for every atom,
  one without unit cell and one in a cubic box of edge 1: the pair (0, 2) is 0.9 apart
  in the first and, across the box boundary, 0.1 apart in the second, and the scores
  differ.
\<close>

theorem scores_depend_on_contact_atoms_counterexample:
  "wf_trajectory ex_traj_free \<and> wf_trajectory ex_traj_box
   \<and> xyz ex_traj_free = xyz ex_traj_box
   \<and> topology ex_traj_free = topology ex_traj_box
   \<and> best_hummer_q ex_traj_free ex_native = Inr [Num (1 / (1 + exp 18))]
   \<and> best_hummer_q ex_traj_box ex_native = Inr [Num (1 / (1 + exp (- 22)))]
   \<and> best_hummer_q ex_traj_free ex_native \<noteq> best_hummer_q ex_traj_box ex_native"
proof -
  have "xyz ex_traj_free = xyz ex_traj_box" and "topology ex_traj_free = topology ex_traj_box"
    by (simp_all add: ex_traj_free_def ex_traj_box_def)
  moreover have "best_hummer_q ex_traj_free ex_native \<noteq> best_hummer_q ex_traj_box ex_native"
    using sigmoid_18_22 by (simp add: best_hummer_q_ex_free best_hummer_q_ex_box)
  ultimately show ?thesis
    by (simp add: wf_ex_traj_free wf_ex_traj_box best_hummer_q_ex_free best_hummer_q_ex_box)
qed

end
